theory Spec2Isabelle
  imports Complex_Main "HOL-Library.AList" "HOL-Library.Multiset"
begin

section \<open>Python strings\<close>

text \<open>
  A Python \<open>str\<close> is modelled as a \<^typ>\<open>string\<close>: a list of 8-bit characters, each read
  as the Unicode code point of the same number (the Latin-1 range). Texts with code points
  from 256 on are outside the model. The letter \<open>o\<close> with acute accent of the source's
  patterns is \<^term>\<open>CHR 0xF3\<close>.
\<close>

definition quote_char :: char where
  "quote_char = CHR 0x22"

definition apostrophe :: char where
  "apostrophe = CHR 0x27"

definition backslash :: char where
  "backslash = CHR 0x5C"

definition newline :: char where
  "newline = CHR 0x0A"

text \<open>\<open>str.isspace\<close> on one character, which is also the class \<open>\s\<close> of \<open>re\<close> on a \<open>str\<close> pattern.\<close>

definition isspace :: "char \<Rightarrow> bool" where
  "isspace c = (let n = (of_char c :: nat)
                in (9 \<le> n \<and> n \<le> 13) \<or> (28 \<le> n \<and> n \<le> 32) \<or> n = 133 \<or> n = 160)"

text \<open>\<open>str.lower\<close>: the capitals of ASCII and of Latin-1 (the multiplication sign 215 is none).\<close>

definition lower_char :: "char \<Rightarrow> char" where
  "lower_char c = (let n = (of_char c :: nat)
                   in if (65 \<le> n \<and> n \<le> 90) \<or> (192 \<le> n \<and> n \<le> 222 \<and> n \<noteq> 215)
                      then char_of (n + 32) else c)"

definition lower :: "string \<Rightarrow> string" where
  "lower s = map lower_char s"

text \<open>\<open>str.strip()\<close> with no argument.\<close>

definition strip :: "string \<Rightarrow> string" where
  "strip s = rev (dropWhile isspace (rev (dropWhile isspace s)))"

text \<open>\<open>s.startswith(p)\<close>.\<close>

definition startswith :: "string \<Rightarrow> string \<Rightarrow> bool" where
  "startswith p s = (take (length p) s = p)"

text \<open>\<open>sub in s\<close> on two strings.\<close>

fun occurs :: "string \<Rightarrow> string \<Rightarrow> bool" where
  "occurs sub [] = (sub = [])"
| "occurs sub (c # s) = (startswith sub (c # s) \<or> occurs sub s)"

text \<open>
  \<open>s.replace(old, new)\<close>: the occurrences of \<open>old\<close> are found from the left and do not
  overlap; an empty \<open>old\<close> matches before every character and at the end.
\<close>

fun replace_from :: "string \<Rightarrow> string \<Rightarrow> nat \<Rightarrow> string \<Rightarrow> string" where
  "replace_from old new skip [] = []"
| "replace_from old new (Suc k) (c # s) = replace_from old new k s"
| "replace_from old new 0 (c # s) =
     (if startswith old (c # s) then new @ replace_from old new (length old - 1) s
      else c # replace_from old new 0 s)"

definition replace :: "string \<Rightarrow> string \<Rightarrow> string \<Rightarrow> string" where
  "replace old new s =
     (if old = [] then new @ concat (map (\<lambda>c. c # new) s) else replace_from old new 0 s)"

section \<open>The JSON decoder of the standard library\<close>

text \<open>
  \<open>json.loads\<close> is library code. Its decoder is modelled as a recursive-descent reader of
  the grammar the library accepts (with \<open>NaN\<close>, \<open>Infinity\<close> and \<open>-Infinity\<close>); a number keeps
  its lexeme, since the program never computes with one. An escape \<open>\uXXXX\<close> of a code
  point from 256 on leaves the modelled strings: the decoder then answers \<open>NotLatin1\<close>
  instead of a value. The interpreter's limits (nesting depth, digits of an integer) are
  not modelled.
\<close>

datatype json =
    JNull
  | JBool bool
  | JNumber string
  | JString string
  | JArray "json list"
  | JObject "(string \<times> json) list"

datatype decode_error = JSONDecodeError | NotLatin1

definition is_ws :: "char \<Rightarrow> bool" where
  "is_ws c = (c = CHR '' '' \<or> c = CHR 0x09 \<or> c = CHR 0x0A \<or> c = CHR 0x0D)"

definition skip_ws :: "string \<Rightarrow> string" where
  "skip_ws s = dropWhile is_ws s"

definition is_digit :: "char \<Rightarrow> bool" where
  "is_digit c = (c \<in> set ''0123456789'')"

definition hex_val :: "char \<Rightarrow> nat option" where
  "hex_val c = (let n = (of_char c :: nat)
                in if 48 \<le> n \<and> n \<le> 57 then Some (n - 48)
                   else if 65 \<le> n \<and> n \<le> 70 then Some (n - 55)
                   else if 97 \<le> n \<and> n \<le> 102 then Some (n - 87)
                   else None)"

definition hex4 :: "char \<Rightarrow> char \<Rightarrow> char \<Rightarrow> char \<Rightarrow> nat option" where
  "hex4 a b c d =
     (case (hex_val a, hex_val b, hex_val c, hex_val d) of
        (Some x, Some y, Some z, Some w) \<Rightarrow> Some (((x * 16 + y) * 16 + z) * 16 + w)
      | _ \<Rightarrow> None)"

definition unescape :: "char \<Rightarrow> char option" where
  "unescape e =
     (if e = quote_char \<or> e = backslash \<or> e = CHR ''/'' then Some e
      else if e = CHR ''b'' then Some (CHR 0x08)
      else if e = CHR ''f'' then Some (CHR 0x0C)
      else if e = CHR ''n'' then Some (CHR 0x0A)
      else if e = CHR ''r'' then Some (CHR 0x0D)
      else if e = CHR ''t'' then Some (CHR 0x09)
      else None)"

text \<open>The body of a string literal, after its opening quote (strict mode: no control characters).\<close>

fun scanstring :: "string \<Rightarrow> string \<Rightarrow> decode_error + (string \<times> string)" where
  "scanstring acc [] = Inl JSONDecodeError"
| "scanstring acc (c # s) =
     (if c = quote_char then Inr (rev acc, s)
      else if c = backslash then
        (case s of
           [] \<Rightarrow> Inl JSONDecodeError
         | e # s1 \<Rightarrow>
             if e = CHR ''u'' then
               (case s1 of
                  h1 # h2 # h3 # h4 # s2 \<Rightarrow>
                    (case hex4 h1 h2 h3 h4 of
                       None \<Rightarrow> Inl JSONDecodeError
                     | Some n \<Rightarrow> if n < 256 then scanstring (char_of n # acc) s2 else Inl NotLatin1)
                | _ \<Rightarrow> Inl JSONDecodeError)
             else
               (case unescape e of
                  None \<Rightarrow> Inl JSONDecodeError
                | Some ch \<Rightarrow> scanstring (ch # acc) s1))
      else if (of_char c :: nat) < 32 then Inl JSONDecodeError
      else scanstring (c # acc) s)"

text \<open>
  The number pattern of the scanner,
  \<^verbatim>\<open>(-?(?:0|[1-9]\d*))(\.\d+)?([eE][-+]?\d+)?\<close>: the lexeme and the rest of the text.
\<close>

definition scan_int :: "string \<Rightarrow> (string \<times> string) option" where
  "scan_int s =
     (let (sign, s1) = (case s of c # t \<Rightarrow> if c = CHR ''-'' then ([c], t) else ([], s) | [] \<Rightarrow> ([], s))
      in case s1 of
           [] \<Rightarrow> None
         | d # t \<Rightarrow>
             if d = CHR ''0'' then Some (sign @ [d], t)
             else if is_digit d then Some (sign @ d # takeWhile is_digit t, dropWhile is_digit t)
             else None)"

definition scan_frac :: "string \<Rightarrow> string \<times> string" where
  "scan_frac s =
     (case s of
        c # t \<Rightarrow>
          if c = CHR ''.'' \<and> takeWhile is_digit t \<noteq> []
          then (c # takeWhile is_digit t, dropWhile is_digit t) else ([], s)
      | [] \<Rightarrow> ([], s))"

definition scan_exp :: "string \<Rightarrow> string \<times> string" where
  "scan_exp s =
     (case s of
        e # t \<Rightarrow>
          if e = CHR ''e'' \<or> e = CHR ''E'' then
            (let (sg, t1) = (case t of c # u \<Rightarrow> if c = CHR ''+'' \<or> c = CHR ''-'' then ([c], u) else ([], t)
                                     | [] \<Rightarrow> ([], t))
             in if takeWhile is_digit t1 \<noteq> []
                then (e # sg @ takeWhile is_digit t1, dropWhile is_digit t1) else ([], s))
          else ([], s)
      | [] \<Rightarrow> ([], s))"

definition scan_number :: "string \<Rightarrow> (string \<times> string) option" where
  "scan_number s =
     (case scan_int s of
        None \<Rightarrow> None
      | Some (i, s1) \<Rightarrow>
          (let (f, s2) = scan_frac s1; (e, s3) = scan_exp s2 in Some (i @ f @ e, s3)))"

text \<open>The constants, tried in the scanner's order; \<open>None\<close> when the text starts with none.\<close>

definition scan_constant :: "string \<Rightarrow> (json \<times> string) option" where
  "scan_constant s =
     (if startswith ''null'' s then Some (JNull, drop 4 s)
      else if startswith ''true'' s then Some (JBool True, drop 4 s)
      else if startswith ''false'' s then Some (JBool False, drop 5 s)
      else if startswith ''NaN'' s then Some (JNumber ''NaN'', drop 3 s)
      else if startswith ''Infinity'' s then Some (JNumber ''Infinity'', drop 8 s)
      else if startswith ''-Infinity'' s then Some (JNumber ''-Infinity'', drop 9 s)
      else None)"

lemma skip_ws_length: "length (skip_ws s) \<le> length s"
  by (simp add: skip_ws_def length_dropWhile_le)

lemma skip_ws_Cons_length: "skip_ws r = c # t \<Longrightarrow> length t < length r"
  using skip_ws_length [of r] by simp

text \<open>
  Values, the elements of an array after its bracket, and the members of an object after
  its brace. Each reader returns the value and the text after it. The tests that the rest
  is shorter than the text read make the recursion well-founded; they never fail, since a
  reader that returns has read at least one character (\<open>scanstring_shorter\<close> and
  \<open>parse_value_shorter\<close> below).
\<close>

function parse_value :: "string \<Rightarrow> decode_error + (json \<times> string)"
  and parse_array :: "json list \<Rightarrow> string \<Rightarrow> decode_error + (json \<times> string)"
  and parse_object :: "(string \<times> json) list \<Rightarrow> string \<Rightarrow> decode_error + (json \<times> string)"
where
  "parse_value s =
     (case s of
        [] \<Rightarrow> Inl JSONDecodeError
      | c # t \<Rightarrow>
          if c = quote_char then
            (case scanstring [] t of Inl e \<Rightarrow> Inl e | Inr (str, r) \<Rightarrow> Inr (JString str, r))
          else if c = CHR ''{'' then
            (if startswith ''}'' (skip_ws t) then Inr (JObject [], tl (skip_ws t))
             else parse_object [] (skip_ws t))
          else if c = CHR ''['' then
            (if startswith '']'' (skip_ws t) then Inr (JArray [], tl (skip_ws t))
             else parse_array [] (skip_ws t))
          else
            (case scan_constant s of
               Some r \<Rightarrow> Inr r
             | None \<Rightarrow>
                 (case scan_number s of
                    Some (lexeme, r) \<Rightarrow> Inr (JNumber lexeme, r)
                  | None \<Rightarrow> Inl JSONDecodeError)))"
| "parse_array acc s =
     (case parse_value s of
        Inl e \<Rightarrow> Inl e
      | Inr (v, r) \<Rightarrow>
          if length r < length s then
            (case skip_ws r of
               [] \<Rightarrow> Inl JSONDecodeError
             | c # t \<Rightarrow>
                 if c = CHR '']'' then Inr (JArray (acc @ [v]), t)
                 else if c = CHR '','' then parse_array (acc @ [v]) (skip_ws t)
                 else Inl JSONDecodeError)
          else Inl JSONDecodeError)"
| "parse_object acc s =
     (case s of
        [] \<Rightarrow> Inl JSONDecodeError
      | q # t \<Rightarrow>
          if q \<noteq> quote_char then Inl JSONDecodeError
          else
            (case scanstring [] t of
               Inl e \<Rightarrow> Inl e
             | Inr (k, r) \<Rightarrow>
                 (case skip_ws r of
                    [] \<Rightarrow> Inl JSONDecodeError
                  | c # t1 \<Rightarrow>
                      if c = CHR '':'' \<and> length (skip_ws t1) < length s then
                        (case parse_value (skip_ws t1) of
                           Inl e \<Rightarrow> Inl e
                         | Inr (v, r2) \<Rightarrow>
                             if length r2 < length (skip_ws t1) then
                               (case skip_ws r2 of
                                  [] \<Rightarrow> Inl JSONDecodeError
                                | c2 # t2 \<Rightarrow>
                                    if c2 = CHR ''}'' then Inr (JObject (AList.update k v acc), t2)
                                    else if c2 = CHR '','' then
                                      parse_object (AList.update k v acc) (skip_ws t2)
                                    else Inl JSONDecodeError)
                             else Inl JSONDecodeError)
                      else Inl JSONDecodeError)))"
  by pat_completeness auto
termination
proof (relation "measure (\<lambda>x. case x of
                     Inl s \<Rightarrow> 2 * length s
                   | Inr (Inl (acc, s)) \<Rightarrow> 2 * length s + 1
                   | Inr (Inr (acc, s)) \<Rightarrow> 2 * length s + 1)", goal_cases)
  case 1
  show ?case by simp
next
  case (2 s c t)
  then show ?case using skip_ws_length [of t] by simp
next
  case (3 s c t)
  then show ?case using skip_ws_length [of t] by simp
next
  case (4 acc s)
  show ?case by simp
next
  case (5 acc s x v r c t)
  then show ?case
    using skip_ws_length [of t] skip_ws_Cons_length [of r c t] by simp
next
  case (6 acc s q t x k r c t1)
  then show ?case by simp
next
  case (7 acc s q t x k r c t1 x2 v r2 c2 t2)
  then show ?case
    using skip_ws_length [of t2] skip_ws_Cons_length [of r2 c2 t2] by simp
qed

text \<open>\<open>json.loads\<close>: one value, with white space around it and nothing else.\<close>

definition json_loads :: "string \<Rightarrow> decode_error + json" where
  "json_loads s =
     (case parse_value (skip_ws s) of
        Inl e \<Rightarrow> Inl e
      | Inr (v, r) \<Rightarrow> if skip_ws r = [] then Inr v else Inl JSONDecodeError)"

section \<open>The regular expressions of the answer extractor\<close>

text \<open>
  The patterns of the source use a small part of \<open>re\<close>: alternatives of literal words,
  the quote class \<^verbatim>\<open>["']\<close> (required or optional), \<^verbatim>\<open>\s*\<close> and \<^verbatim>\<open>\s+\<close>, one group
  \<^verbatim>\<open>([a-d])\<close> or \<^verbatim>\<open>(.*?)\<close>, and the end \<^verbatim>\<open>(?:\}|\n|$)\<close>. A pattern is a list of such
  items; \<open>matches\<close> is the backtracking matcher at one position (alternatives in order,
  greedy repetition and option, lazy group) and returns group 1.
\<close>

datatype item =
    Alt "string list"
  | Lit string
  | Quote
  | OptQuote
  | Spaces0
  | Spaces1
  | Letter
  | AnyLazy
  | Closing

definition is_quote :: "char \<Rightarrow> bool" where
  "is_quote c = (c = quote_char \<or> c = apostrophe)"

definition or_else :: "'a option \<Rightarrow> 'a option \<Rightarrow> 'a option" where
  "or_else x y = (case x of Some r \<Rightarrow> Some r | None \<Rightarrow> y)"

function matches :: "item list \<Rightarrow> string \<Rightarrow> string \<Rightarrow> string option" where
  "matches [] s g = Some g"
| "matches (Alt [] # p) s g = None"
| "matches (Alt (w # ws) # p) s g =
     or_else (if startswith w s then matches p (drop (length w) s) g else None)
             (matches (Alt ws # p) s g)"
| "matches (Lit w # p) s g = (if startswith w s then matches p (drop (length w) s) g else None)"
| "matches (Quote # p) [] g = None"
| "matches (Quote # p) (c # s) g = (if is_quote c then matches p s g else None)"
| "matches (OptQuote # p) [] g = matches p [] g"
| "matches (OptQuote # p) (c # s) g =
     or_else (if is_quote c then matches p s g else None) (matches p (c # s) g)"
| "matches (Spaces0 # p) [] g = matches p [] g"
| "matches (Spaces0 # p) (c # s) g =
     or_else (if isspace c then matches (Spaces0 # p) s g else None) (matches p (c # s) g)"
| "matches (Spaces1 # p) [] g = None"
| "matches (Spaces1 # p) (c # s) g = (if isspace c then matches (Spaces0 # p) s g else None)"
| "matches (Letter # p) [] g = None"
| "matches (Letter # p) (c # s) g = (if c \<in> set ''abcd'' then matches p s [c] else None)"
| "matches (AnyLazy # p) [] g = matches p [] g"
| "matches (AnyLazy # p) (c # s) g =
     or_else (matches p (c # s) g)
             (if c \<noteq> newline then matches (AnyLazy # p) s (g @ [c]) else None)"
| "matches (Closing # p) [] g = matches p [] g"
| "matches (Closing # p) (c # s) g =
     (if c = CHR ''}'' \<or> c = newline then matches p s g else None)"
  by pat_completeness auto
termination
  by (relation "measures [\<lambda>(p, s, g). length p,
                          \<lambda>(p, s, g). (case p of Alt ws # _ \<Rightarrow> length ws | _ \<Rightarrow> 0),
                          \<lambda>(p, s, g). length s]") auto

text \<open>\<open>re.search\<close>: the match at the leftmost position that has one; group 1 of it.\<close>

fun search :: "item list \<Rightarrow> string \<Rightarrow> string option" where
  "search p [] = matches p [] []"
| "search p (c # s) = or_else (matches p (c # s) []) (search p s)"

definition opcion_accent :: string where
  "opcion_accent = ''opci'' @ [CHR 0xF3] @ ''n''"

definition patterns :: "item list list" where
  "patterns =
     [[Alt [''respuesta'', ''answer''], Lit '':'', Spaces0, OptQuote, Letter, OptQuote],
      [Alt [opcion_accent, ''option''], Lit '':'', Spaces0, OptQuote, Letter, OptQuote],
      [Alt [''alternativa'', ''alternative''], Lit '':'', Spaces0, OptQuote, Letter, OptQuote],
      [Quote, Alt [''respuesta'', ''answer''], Quote, Lit '':'', Spaces0, Quote, Letter, Quote],
      [Quote, Alt [opcion_accent, ''option''], Quote, Lit '':'', Spaces0, Quote, Letter, Quote],
      [Alt [''la respuesta correcta es'', ''the correct answer is''], Spaces1, OptQuote, Letter,
       OptQuote],
      [Alt [''elijo'', ''i choose''], Spaces1, OptQuote, Letter, OptQuote]]"

definition justification_pattern :: "item list" where
  "justification_pattern =
     [Alt [''justificacion'', ''justification'', ''reasoning''], Lit '':'', Spaces0, OptQuote,
      AnyLazy, OptQuote, Closing]"

text \<open>The loop over the patterns: group 1 of the first pattern that is found in the text.\<close>

fun first_match :: "item list list \<Rightarrow> string \<Rightarrow> string option" where
  "first_match [] text = None"
| "first_match (p # ps) text = or_else (search p text) (first_match ps text)"

section \<open>The answer extractor\<close>

text \<open>
  The exceptions that leave a function: those of the interpreter by their class, those of
  the collaborators (\<open>Exception\<close>) with their text. \<open>OutsideModel\<close> is no exception: it marks
  a text that the model of the decoder does not cover.
\<close>

datatype error = TypeError | KeyError | ValueError | IndexError | Exception string | OutsideModel

text \<open>\<open>key in data\<close> and \<open>data[key]\<close> for a string \<open>key\<close>, by the type of the decoded value.\<close>

fun contains_key :: "json \<Rightarrow> string \<Rightarrow> error + bool" where
  "contains_key (JObject kvs) k = Inr (map_of kvs k \<noteq> None)"
| "contains_key (JArray xs) k = Inr (JString k \<in> set xs)"
| "contains_key (JString s) k = Inr (occurs k s)"
| "contains_key (JNumber n) k = Inl TypeError"
| "contains_key (JBool b) k = Inl TypeError"
| "contains_key JNull k = Inl TypeError"

fun getitem :: "json \<Rightarrow> string \<Rightarrow> error + json" where
  "getitem (JObject kvs) k = (case map_of kvs k of Some v \<Rightarrow> Inr v | None \<Rightarrow> Inl KeyError)"
| "getitem (JArray xs) k = Inl TypeError"
| "getitem (JString s) k = Inl TypeError"
| "getitem (JNumber n) k = Inl TypeError"
| "getitem (JBool b) k = Inl TypeError"
| "getitem JNull k = Inl TypeError"

text \<open>
  The loop \<open>for key in keys: if key in data: found = data[key]; break\<close>, started with the
  default \<open>""\<close>.
\<close>

fun first_key :: "string list \<Rightarrow> json \<Rightarrow> error + json" where
  "first_key [] data = Inr (JString [])"
| "first_key (k # ks) data =
     (case contains_key data k of
        Inl e \<Rightarrow> Inl e
      | Inr True \<Rightarrow> getitem data k
      | Inr False \<Rightarrow> first_key ks data)"

definition answer_keys :: "string list" where
  "answer_keys = [''respuesta'', ''Respuesta'', ''response'', ''Response'', ''answer'', ''Answer'']"

definition justification_keys :: "string list" where
  "justification_keys =
     [''justificacion'', ''Justificacion'', ''justification'', ''Justification'', ''reasoning'',
      ''Reasoning'']"

definition fence :: string where
  "fence = [CHR 0x60, CHR 0x60, CHR 0x60]"

definition clean_response :: "string \<Rightarrow> string" where
  "clean_response response =
     (if occurs (fence @ ''json'') response
      then strip (replace fence [] (replace (fence @ ''json'') [] response))
      else if occurs fence response then strip (replace fence [] response)
      else response)"

text \<open>The answer of the JSON branch: stripped, lowered, cut to its first letter.\<close>

definition normalise_answer :: "string \<Rightarrow> string" where
  "normalise_answer v =
     (let answer = lower (strip v)
      in if length answer > 1 \<and> hd answer \<in> set ''abcd'' then [hd answer] else answer)"

text \<open>The part of \<open>_parse_response\<close> after the JSON branch: the patterns, then the scan.\<close>

definition search_text :: "string \<Rightarrow> string \<times> json" where
  "search_text response =
     (let response_lower = lower response
      in case first_match patterns response_lower of
           Some letter \<Rightarrow>
             (letter,
              JString (case search justification_pattern response_lower of
                         Some g \<Rightarrow> strip g
                       | None \<Rightarrow> []))
         | None \<Rightarrow>
             (case find (\<lambda>c. c \<in> set ''abcd'') response_lower of
                Some c \<Rightarrow> ([c], JString [])
              | None \<Rightarrow> ([], JString [])))"

text \<open>
  \<open>ModelEnsemble._parse_response\<close>. The result is the pair (answer, justification); the
  justification of the JSON branch is whatever value the key holds. \<open>Inl\<close> is an exception
  that leaves the function: only \<open>JSONDecodeError\<close> is caught.
\<close>

definition parse_response :: "string \<Rightarrow> error + (string \<times> json)" where
  "parse_response response =
     (if response = [] \<or> startswith ''Error:'' response then Inr ([], JString [])
      else
        (case json_loads (clean_response response) of
           Inl NotLatin1 \<Rightarrow> Inl OutsideModel
         | Inl JSONDecodeError \<Rightarrow> Inr (search_text response)
         | Inr data \<Rightarrow>
             (case first_key answer_keys data of
                Inl e \<Rightarrow> Inl e
              | Inr answer \<Rightarrow>
                  (case first_key justification_keys data of
                     Inl e \<Rightarrow> Inl e
                   | Inr justification \<Rightarrow>
                       (case answer of
                          JString v \<Rightarrow>
                            if v \<noteq> [] then Inr (normalise_answer v, justification)
                            else Inr (search_text response)
                        | _ \<Rightarrow> Inr (search_text response))))))"

section \<open>Prompts\<close>

text \<open>\<open>PromptManager\<close>: the templates come from the configuration file and are parameters.\<close>

definition get_advisor_prompt :: "string \<Rightarrow> string \<Rightarrow> string" where
  "get_advisor_prompt advisor_template question =
     replace ''{question}'' question advisor_template"

definition get_decision_prompt ::
  "string \<Rightarrow> string \<Rightarrow> string \<Rightarrow> string \<Rightarrow> string \<Rightarrow> string" where
  "get_decision_prompt decision_template question claude_response grok_response deepseek_response =
     replace ''{deepseek_response}'' deepseek_response
       (replace ''{grok_response}'' grok_response
          (replace ''{claude_response}'' claude_response
             (replace ''{question}'' question decision_template)))"


section \<open>Model backends\<close>

text \<open>
  What a provider does when it is queried with an image path and a prompt: reading the
  image raises (outside the \<open>try\<close> of \<open>query_model\<close>), the call raises after some time, or
  the call returns a text after some time. Times are real numbers.
\<close>

datatype backend_call =
    EncodeRaises string
  | CallRaises string real
  | CallReturns string real

type_synonym backend = "string \<Rightarrow> string \<Rightarrow> backend_call"

record timed_text =
  raw_response :: string
  processing_time :: real

text \<open>The dictionary a \<open>query_model\<close> returns; its key \<open>error\<close> may be absent.\<close>

record response_data = timed_text +
  error_key :: "bool option"

text \<open>\<open>AdvisorModel.query_model\<close>.\<close>

definition advisor_query_model :: "backend \<Rightarrow> string \<Rightarrow> string \<Rightarrow> error + response_data" where
  "advisor_query_model provider image_path prompt =
     (case provider image_path prompt of
        EncodeRaises msg \<Rightarrow> Inl (Exception msg)
      | CallRaises msg t \<Rightarrow>
          Inr \<lparr>raw_response = ''Error: '' @ msg, processing_time = t, error_key = Some True\<rparr>
      | CallReturns text t \<Rightarrow>
          Inr \<lparr>raw_response = text, processing_time = t, error_key = None\<rparr>)"

text \<open>
  \<open>DecisionModel.query_model\<close>: the provider \<open>openai\<close> is called directly, any other one
  through an \<open>AdvisorModel\<close>, whose result is returned with the key \<open>error\<close> always set.
\<close>

definition decision_query_model ::
  "bool \<Rightarrow> backend \<Rightarrow> string \<Rightarrow> string \<Rightarrow> error + response_data" where
  "decision_query_model openai provider image_path prompt =
     (case provider image_path prompt of
        EncodeRaises msg \<Rightarrow> Inl (Exception msg)
      | CallRaises msg t \<Rightarrow>
          Inr \<lparr>raw_response = ''Error: '' @ msg, processing_time = t, error_key = Some True\<rparr>
      | CallReturns text t \<Rightarrow>
          Inr \<lparr>raw_response = text, processing_time = t,
               error_key = (if openai then None else Some False)\<rparr>)"

section \<open>The orchestrator\<close>

text \<open>
  The dictionaries of an advisor's answer and of the decision. A Python \<open>dict\<close> is an
  association list with distinct keys, in insertion order: \<open>d[k] = v\<close> is \<open>AList.update\<close>,
  \<open>d.get(k)\<close> is \<open>map_of\<close>.
\<close>

record reply = timed_text +
  reasoning :: json
  error :: bool

record advisor_reply = reply +
  parsed_answer :: string

record decision_reply = reply +
  final_answer :: string

record decision = decision_reply +
  is_correct :: bool

text \<open>
  \<open>str(e)\<close>. The wording of the interpreter's own messages is not modelled: the name of
  the class stands for it.
\<close>

definition str_error :: "error \<Rightarrow> string" where
  "str_error e =
     (case e of
        Exception msg \<Rightarrow> msg
      | TypeError \<Rightarrow> ''TypeError''
      | KeyError \<Rightarrow> ''KeyError''
      | ValueError \<Rightarrow> ''ValueError''
      | IndexError \<Rightarrow> ''IndexError''
      | OutsideModel \<Rightarrow> ''OutsideModel'')"

text \<open>The configuration of a \<open>ModelEnsemble\<close>: templates, image directory and models.\<close>

record ensemble =
  advisor_template :: string
  decision_template :: string
  image_base_path :: string
  advisor_models :: "(string \<times> backend) list"
  decision_model :: backend
  decision_openai :: bool

text \<open>\<open>ModelEnsemble._query_advisor\<close>.\<close>

definition query_advisor ::
  "ensemble \<Rightarrow> string \<Rightarrow> backend \<Rightarrow> string \<Rightarrow> string \<Rightarrow> error + advisor_reply" where
  "query_advisor self advisor_name advisor image_path question =
     (let prompt = get_advisor_prompt (advisor_template self) question
      in case advisor_query_model advisor image_path prompt of
           Inl e \<Rightarrow> Inl e
         | Inr response_data \<Rightarrow>
             (case parse_response (raw_response response_data) of
                Inl e \<Rightarrow> Inl e
              | Inr (answer, justification) \<Rightarrow>
                  Inr \<lparr>raw_response = raw_response response_data,
                       processing_time = processing_time response_data,
                       reasoning = justification,
                       error = (case error_key response_data of Some b \<Rightarrow> b | None \<Rightarrow> False),
                       parsed_answer = answer\<rparr>))"

text \<open>The entry that the \<open>except\<close> branch of the fan-out writes for a task that raised.\<close>

definition failed_reply :: "error \<Rightarrow> advisor_reply" where
  "failed_reply e =
     \<lparr>raw_response = ''Error: '' @ str_error e, processing_time = 0, reasoning = JString [],
      error = True, parsed_answer = []\<rparr>"

text \<open>
  The loop over \<open>as_completed\<close>: the futures, each with its advisor's name, in the order in
  which they complete.
\<close>

fun collect ::
  "ensemble \<Rightarrow> string \<Rightarrow> string \<Rightarrow> (string \<times> backend) list \<Rightarrow> (string \<times> advisor_reply) list
   \<Rightarrow> error + (string \<times> advisor_reply) list" where
  "collect self image_path question [] advisor_responses = Inr advisor_responses"
| "collect self image_path question ((advisor_name, advisor) # completed) advisor_responses =
     (case query_advisor self advisor_name advisor image_path question of
        Inr r \<Rightarrow>
          collect self image_path question completed (AList.update advisor_name r advisor_responses)
      | Inl e \<Rightarrow>
          if e = OutsideModel then Inl OutsideModel
          else collect self image_path question completed
                 (AList.update advisor_name (failed_reply e) advisor_responses))"

text \<open>
  \<open>ModelEnsemble._query_advisors_parallel\<close>. \<open>completed\<close> is the completion order of the
  futures, a permutation of the configured advisors. A \<open>ThreadPoolExecutor\<close> refuses
  \<open>max_workers = 0\<close> with a \<open>ValueError\<close>.
\<close>

definition query_advisors_parallel ::
  "ensemble \<Rightarrow> (string \<times> backend) list \<Rightarrow> string \<Rightarrow> string
   \<Rightarrow> error + (string \<times> advisor_reply) list" where
  "query_advisors_parallel self completed image_path question =
     (if length (advisor_models self) = 0 then Inl ValueError
      else collect self image_path question completed [])"

definition placeholder :: string where
  "placeholder = ''Error al obtener respuesta''"

text \<open>\<open>advisor_responses.get(name, {}).get("raw_response", placeholder)\<close>.\<close>

definition advisor_raw :: "(string \<times> advisor_reply) list \<Rightarrow> string \<Rightarrow> string" where
  "advisor_raw advisor_responses advisor_name =
     (case map_of advisor_responses advisor_name of
        Some r \<Rightarrow> raw_response r
      | None \<Rightarrow> placeholder)"

text \<open>The prompt that \<open>_query_decision_model\<close> builds.\<close>

definition decision_prompt :: "string \<Rightarrow> string \<Rightarrow> (string \<times> advisor_reply) list \<Rightarrow> string" where
  "decision_prompt template question advisor_responses =
     get_decision_prompt template question
       (advisor_raw advisor_responses ''claude'')
       (advisor_raw advisor_responses ''grok'')
       (advisor_raw advisor_responses ''deepseek'')"

text \<open>\<open>ModelEnsemble._query_decision_model\<close>.\<close>

definition query_decision_model ::
  "ensemble \<Rightarrow> string \<Rightarrow> string \<Rightarrow> (string \<times> advisor_reply) list \<Rightarrow> error + decision_reply" where
  "query_decision_model self image_path question advisor_responses =
     (let prompt = decision_prompt (decision_template self) question advisor_responses
      in case decision_query_model (decision_openai self) (decision_model self) image_path prompt of
           Inl e \<Rightarrow> Inl e
         | Inr response_data \<Rightarrow>
             (case parse_response (raw_response response_data) of
                Inl e \<Rightarrow> Inl e
              | Inr (answer, justification) \<Rightarrow>
                  Inr \<lparr>raw_response = raw_response response_data,
                       processing_time = processing_time response_data,
                       reasoning = justification,
                       error = (case error_key response_data of Some b \<Rightarrow> b | None \<Rightarrow> False),
                       final_answer = answer\<rparr>))"

text \<open>A row of the dataset; \<open>name\<close> is its index label, the identity of the question.\<close>

record row =
  name :: int
  pregunta :: string
  respuesta_correcta :: string
  ruta :: string
  categoria_1 :: string
  categoria_2 :: string

record result =
  question_id :: int
  question_text :: string
  image_path :: string
  correct_answer :: string
  category_1 :: string
  category_2 :: string
  advisors :: "(string \<times> advisor_reply) list"
  decision :: decision
  total_time :: real

text \<open>\<open>os.path.join\<close> of two components on a POSIX system.\<close>

definition path_join :: "string \<Rightarrow> string \<Rightarrow> string" where
  "path_join base p =
     (if startswith ''/'' p then p
      else if base = [] \<or> last base = CHR ''/'' then base @ p
      else base @ ''/'' @ p)"

text \<open>
  \<open>ModelEnsemble.process_question\<close>. The file system (\<open>is_valid_image\<close>), the completion
  order of the advisors and the measured time are parameters. \<open>Inr None\<close> is a skipped
  question.
\<close>

definition process_question ::
  "ensemble \<Rightarrow> (string \<Rightarrow> bool) \<Rightarrow> (string \<times> backend) list \<Rightarrow> real \<Rightarrow> row \<Rightarrow> error + result option"
  where
  "process_question self is_valid_image completed elapsed r =
     (let path = path_join (image_base_path self) (ruta r);
          correct = lower (respuesta_correcta r)
      in if \<not> is_valid_image path then Inr None
         else
           (case query_advisors_parallel self completed path (pregunta r) of
              Inl e \<Rightarrow> Inl e
            | Inr advisor_responses \<Rightarrow>
                (case query_decision_model self path (pregunta r) advisor_responses of
                   Inl e \<Rightarrow> Inl e
                 | Inr d \<Rightarrow>
                     Inr (Some
                       \<lparr>question_id = name r, question_text = pregunta r, image_path = path,
                        correct_answer = correct, category_1 = categoria_1 r,
                        category_2 = categoria_2 r, advisors = advisor_responses,
                        decision =
                          \<lparr>raw_response = raw_response d, processing_time = processing_time d,
                           reasoning = reasoning d, error = error d,
                           final_answer = final_answer d,
                           is_correct = (lower (final_answer d) = lower correct)\<rparr>,
                        total_time = elapsed\<rparr>))))"

text \<open>
  The selection of \<open>ModelEnsemble.run\<close>. \<open>df.iloc[:k]\<close> is Python's slice: a negative \<open>k\<close>
  counts from the end.
\<close>

definition iloc_until :: "int \<Rightarrow> 'a list \<Rightarrow> 'a list" where
  "iloc_until k df = (if 0 \<le> k then take (nat k) df else take (nat (int (length df) + k)) df)"

definition select_rows :: "int option \<Rightarrow> int option \<Rightarrow> row list \<Rightarrow> row list" where
  "select_rows sample_size resume_from df =
     (let df1 = (case sample_size of
                   Some k \<Rightarrow> if k \<noteq> 0 \<and> k < int (length df) then iloc_until k df else df
                 | None \<Rightarrow> df)
      in case resume_from of
           Some from_id \<Rightarrow> filter (\<lambda>r. from_id \<le> name r) df1
         | None \<Rightarrow> df1)"

section \<open>The logger\<close>

record tally =
  correct :: nat

record model_stat = tally +
  total :: nat
  time :: real

record logger =
  results :: "result list"
  total_questions :: nat
  correct_answers :: nat
  model_stats :: "(string \<times> model_stat) list"

text \<open>\<open>model_stats\<close> is a \<open>defaultdict\<close>: a missing key reads as the zero record.\<close>

definition stat_of :: "(string \<times> model_stat) list \<Rightarrow> string \<Rightarrow> model_stat" where
  "stat_of stats k =
     (case map_of stats k of Some st \<Rightarrow> st | None \<Rightarrow> \<lparr>correct = 0, total = 0, time = 0\<rparr>)"

definition bump :: "string \<Rightarrow> bool \<Rightarrow> real \<Rightarrow> (string \<times> model_stat) list \<Rightarrow> (string \<times> model_stat) list"
  where
  "bump k ok t stats =
     AList.update k
       \<lparr>correct = correct (stat_of stats k) + (if ok then 1 else 0),
        total = total (stat_of stats k) + 1,
        time = time (stat_of stats k) + t\<rparr> stats"

text \<open>\<open>Logger.log_result\<close>, without the files it writes and the line it prints.\<close>

definition log_result :: "result \<Rightarrow> logger \<Rightarrow> logger" where
  "log_result res lg =
     \<lparr>results = results lg @ [res],
      total_questions = total_questions lg + 1,
      correct_answers = correct_answers lg + (if is_correct (decision res) then 1 else 0),
      model_stats =
        bump ''decision'' (is_correct (decision res)) (processing_time (decision res))
          (foldl (\<lambda>stats (advisor_name, advisor_data).
                    bump advisor_name
                      (lower (parsed_answer advisor_data) = lower (correct_answer res))
                      (processing_time advisor_data) stats)
                 (model_stats lg) (advisors res))\<rparr>"

text \<open>
  The loop of \<open>ModelEnsemble.run\<close> over the selected rows: an exception of
  \<open>process_question\<close> ends the run. The world of each row (its completion order and its
  measured time) is a function of the row.
\<close>

fun process_rows ::
  "ensemble \<Rightarrow> (string \<Rightarrow> bool) \<Rightarrow> (row \<Rightarrow> (string \<times> backend) list) \<Rightarrow> (row \<Rightarrow> real) \<Rightarrow> row list
   \<Rightarrow> logger \<Rightarrow> error + logger" where
  "process_rows self is_valid_image completed elapsed [] lg = Inr lg"
| "process_rows self is_valid_image completed elapsed (r # rows) lg =
     (case process_question self is_valid_image (completed r) (elapsed r) r of
        Inl e \<Rightarrow> Inl e
      | Inr None \<Rightarrow> process_rows self is_valid_image completed elapsed rows lg
      | Inr (Some res) \<Rightarrow>
          process_rows self is_valid_image completed elapsed rows (log_result res lg))"

definition run ::
  "ensemble \<Rightarrow> (string \<Rightarrow> bool) \<Rightarrow> (row \<Rightarrow> (string \<times> backend) list) \<Rightarrow> (row \<Rightarrow> real) \<Rightarrow> row list
   \<Rightarrow> int option \<Rightarrow> int option \<Rightarrow> error + logger" where
  "run self is_valid_image completed elapsed df sample_size resume_from =
     process_rows self is_valid_image completed elapsed (select_rows sample_size resume_from df)
       \<lparr>results = [], total_questions = 0, correct_answers = 0, model_stats = []\<rparr>"

text \<open>
  \<open>Counter(xs)\<close> keeps its keys in the order of their first occurrence;
  \<open>most_common(1)\<close> is the first pair with the greatest count, in a list that is empty for
  an empty counter.
\<close>

definition counter :: "string list \<Rightarrow> (string \<times> nat) list" where
  "counter xs =
     foldl (\<lambda>c x. AList.update x (case map_of c x of Some n \<Rightarrow> n + 1 | None \<Rightarrow> 1) c) [] xs"

fun most_common1 :: "(string \<times> nat) list \<Rightarrow> (string \<times> nat) list" where
  "most_common1 [] = []"
| "most_common1 (kv # kvs) =
     (case most_common1 kvs of
        [] \<Rightarrow> [kv]
      | best # _ \<Rightarrow> if snd best > snd kv then [best] else [kv])"

definition acuerdo_total :: string where
  "acuerdo_total = ''Acuerdo total (3/3)''"

definition acuerdo_parcial :: string where
  "acuerdo_parcial = ''Acuerdo parcial (2/3)''"

definition sin_acuerdo :: string where
  "sin_acuerdo = ''Sin acuerdo (0/3)''"

text \<open>
  The level that \<open>Logger._analyze_consensus\<close> gives one result; \<open>[0]\<close> of an empty list
  raises \<open>IndexError\<close>.
\<close>

definition consensus_level :: "result \<Rightarrow> error + string" where
  "consensus_level res =
     (let advisor_answers = map (\<lambda>(advisor_name, advisor_data). lower (parsed_answer advisor_data))
                                (advisors res)
      in case most_common1 (counter advisor_answers) of
           [] \<Rightarrow> Inl IndexError
         | (most_common_answer, most_common_count) # _ \<Rightarrow>
             if most_common_count = 3 then Inr acuerdo_total
             else if most_common_count = 2 then Inr acuerdo_parcial
             else Inr sin_acuerdo)"

record level_stat = tally +
  count :: nat

text \<open>The loop of \<open>_analyze_consensus\<close> over the results, and the accuracy of each level.\<close>

fun count_levels :: "result list \<Rightarrow> (string \<times> level_stat) list \<Rightarrow> error + (string \<times> level_stat) list"
  where
  "count_levels [] stats = Inr stats"
| "count_levels (res # rest) stats =
     (case consensus_level res of
        Inl e \<Rightarrow> Inl e
      | Inr lvl \<Rightarrow>
          (case map_of stats lvl of
             None \<Rightarrow> Inl KeyError
           | Some st \<Rightarrow>
               count_levels rest
                 (AList.update lvl
                    \<lparr>correct = correct st + (if is_correct (decision res) then 1 else 0),
                     count = count st + 1\<rparr>
                    stats)))"

definition accuracy :: "level_stat \<Rightarrow> real" where
  "accuracy st = (if count st > 0 then real (correct st) / real (count st) * 100 else 0)"

definition analyze_consensus :: "logger \<Rightarrow> error + (string \<times> level_stat \<times> real) list" where
  "analyze_consensus lg =
     (case count_levels (results lg)
             [(acuerdo_total, \<lparr>correct = 0, count = 0\<rparr>),
              (acuerdo_parcial, \<lparr>correct = 0, count = 0\<rparr>),
              (sin_acuerdo, \<lparr>correct = 0, count = 0\<rparr>)] of
        Inl e \<Rightarrow> Inl e
      | Inr stats \<Rightarrow> Inr (map (\<lambda>(lvl, st). (lvl, st, accuracy st)) stats))"

section \<open>The stand-alone script\<close>


section \<open>Sample data\<close>





definition question_row :: "int \<Rightarrow> string \<Rightarrow> row" where
  "question_row i letter =
     \<lparr>name = i, pregunta = ''Indique la estructura embrionaria contenida en el elemento 7'',
      respuesta_correcta = letter, ruta = ''AnatomiaTopografica/Abdomen/Fig5-4-abd.jpg'',
      categoria_1 = ''AnatomiaTopografica'', categoria_2 = ''Abdomen''\<rparr>"

definition sample_reply :: "string \<Rightarrow> advisor_reply" where
  \<open>sample_reply letter =
     \<lparr>raw_response = ''{"Respuesta": "'' @ letter @ ''", "Justificacion": "..."}'',
      processing_time = 2, reasoning = JString ''...'', error = False,
      parsed_answer = letter\<rparr>\<close>

definition sample_result :: "(string \<times> string) list \<Rightarrow> result" where
  \<open>sample_result letters =
     \<lparr>question_id = 1,
      question_text = ''Indique la estructura embrionaria contenida en el elemento 7...'',
      image_path = ''imagenes/AnatomiaTopografica/Abdomen/Fig5-4-abd.jpg'',
      correct_answer = ''a'', category_1 = ''AnatomiaTopografica'', category_2 = ''Abdomen'',
      advisors = map (\<lambda>(advisor_name, letter). (advisor_name, sample_reply letter)) letters,
      decision =
        \<lparr>raw_response = ''{"Respuesta": "a", "Justificacion": "..."}'', processing_time = 2,
         reasoning = JString ''...'', error = False, final_answer = ''a'', is_correct = True\<rparr>,
      total_time = 0\<rparr>\<close>

section \<open>The decoder reads its input\<close>

text \<open>Every reader of the decoder that returns a value has read at least one character.\<close>

lemma dropWhile_le: "length (dropWhile P s) \<le> length s"
  by (rule length_dropWhile_le)

lemma scan_int_shorter:
  assumes "scan_int s = Some (i, r)"
  shows "length r < length s"
proof (cases s)
  case Nil
  with assms show ?thesis by (simp add: scan_int_def)
next
  case (Cons c t)
  show ?thesis
  proof (cases "c = CHR ''-''")
    case True
    then show ?thesis
      using assms dropWhile_le [of is_digit "tl t"]
      by (cases t) (auto simp: scan_int_def Cons split: if_splits)
  next
    case False
    then show ?thesis
      using assms dropWhile_le [of is_digit t]
      by (auto simp: scan_int_def Cons split: if_splits)
  qed
qed

lemma scan_frac_le: "length (snd (scan_frac s)) \<le> length s"
  using dropWhile_le [of is_digit "tl s"]
  by (cases s) (auto simp: scan_frac_def)

lemma scan_exp_le: "length (snd (scan_exp s)) \<le> length s"
proof (cases s)
  case Nil
  then show ?thesis by (simp add: scan_exp_def)
next
  case (Cons e t)
  show ?thesis
  proof (cases t)
    case Nil
    then show ?thesis by (simp add: scan_exp_def Cons)
  next
    case (Cons c u)
    then show ?thesis
      using dropWhile_le [of is_digit u] dropWhile_le [of is_digit t]
      by (auto simp: scan_exp_def \<open>s = e # t\<close> Let_def)
  qed
qed

lemma scan_number_shorter:
  assumes "scan_number s = Some (lx, r)"
  shows "length r < length s"
proof -
  from assms obtain i s1 where i: "scan_int s = Some (i, s1)"
    by (auto simp: scan_number_def split: option.splits)
  with assms have "r = snd (scan_exp (snd (scan_frac s1)))"
    by (auto simp: scan_number_def Let_def split: prod.splits)
  then have "length r \<le> length s1"
    using scan_exp_le [of "snd (scan_frac s1)"] scan_frac_le [of s1] by simp
  with scan_int_shorter [OF i] show ?thesis by simp
qed

lemma scanstring_shorter: "scanstring acc s = Inr (str, r) \<Longrightarrow> length r < length s"
proof (induction acc s rule: scanstring.induct)
  case (1 acc)
  then show ?case by simp
next
  case (2 acc c s)
  show ?case
  proof (cases "c = quote_char")
    case True
    with "2.prems" show ?thesis by simp
  next
    case notq: False
    show ?thesis
    proof (cases "c = backslash")
      case False
      with notq "2.prems" "2.IH"(3) show ?thesis
        by (auto split: if_splits intro: less_SucI)
    next
      case True
      show ?thesis
      proof (cases s)
        case Nil
        with notq True "2.prems" show ?thesis by simp
      next
        case (Cons e s1)
        show ?thesis
        proof (cases "e = CHR ''u''")
          case False
          with notq True Cons "2.prems" "2.IH"(2) [OF notq True Cons False] show ?thesis
            by (auto split: option.splits intro: less_SucI)
        next
          case u: True
          from notq True Cons u "2.prems" obtain h1 h2 h3 h4 s2 n where
            s1: "s1 = h1 # h2 # h3 # h4 # s2" and n: "hex4 h1 h2 h3 h4 = Some n" "n < 256"
            and rec: "scanstring (char_of n # acc) s2 = Inr (str, r)"
            by (auto split: list.splits option.splits if_splits)
          from "2.IH"(1) [OF notq True Cons u s1 refl refl refl n(1) n(2) rec]
          show ?thesis by (simp add: Cons s1)
        qed
      qed
    qed
  qed
qed

lemma scan_constant_shorter: "scan_constant s = Some (v, r) \<Longrightarrow> length r < length s"
  by (cases s) (auto simp: scan_constant_def startswith_def split: if_splits)

lemma tl_skip_ws_shorter: "skip_ws t \<noteq> [] \<Longrightarrow> length (tl (skip_ws t)) < Suc (length t)"
  using skip_ws_length [of t] by (cases "skip_ws t") auto

lemma startswith_nonempty: "startswith (a # p) s \<Longrightarrow> s \<noteq> []"
  by (auto simp: startswith_def)

lemma parse_value_shorter:
  "parse_value s = Inr (v, r) \<longrightarrow> length r < length s"
  "parse_array acc s1 = Inr (v1, r1) \<longrightarrow> length r1 < length s1"
  "parse_object kvs s2 = Inr (v2, r2) \<longrightarrow> length r2 < length s2"
proof (induction s and acc s1 and kvs s2 arbitrary: v r and v1 r1 and v2 r2
        rule: parse_value_parse_array_parse_object.induct)
  case (1 s)
  show ?case
  proof
    assume res: "parse_value s = Inr (v, r)"
    then obtain c t where s: "s = c # t"
      by (cases s) (simp_all add: parse_value.simps [of "[]"])
    consider (str) "c = quote_char"
      | (obj) "c \<noteq> quote_char" "c = CHR ''{''"
      | (arr) "c \<noteq> quote_char" "c \<noteq> CHR ''{''" "c = CHR ''[''"
      | (other) "c \<noteq> quote_char" "c \<noteq> CHR ''{''" "c \<noteq> CHR ''[''"
      by blast
    then show "length r < length s"
    proof cases
      case str
      with res s obtain x where "scanstring [] t = Inr (x, r)"
        by (subst (asm) parse_value.simps) (auto split: sum.splits)
      from scanstring_shorter [OF this] show ?thesis by (simp add: s)
    next
      case obj
      show ?thesis
      proof (cases "startswith ''}'' (skip_ws t)")
        case True
        with res s obj have "r = tl (skip_ws t)"
          by (subst (asm) parse_value.simps) simp
        with tl_skip_ws_shorter [OF startswith_nonempty [OF True]] show ?thesis by (simp add: s)
      next
        case False
        with res s obj have "parse_object [] (skip_ws t) = Inr (v, r)"
          by (subst (asm) parse_value.simps) simp
        with "1.IH"(1) [OF s obj False] have "length r < length (skip_ws t)" by simp
        with skip_ws_length [of t] show ?thesis by (simp add: s)
      qed
    next
      case arr
      show ?thesis
      proof (cases "startswith '']'' (skip_ws t)")
        case True
        with res s arr have "r = tl (skip_ws t)"
          by (subst (asm) parse_value.simps) simp
        with tl_skip_ws_shorter [OF startswith_nonempty [OF True]] show ?thesis by (simp add: s)
      next
        case False
        with res s arr have "parse_array [] (skip_ws t) = Inr (v, r)"
          by (subst (asm) parse_value.simps) simp
        with "1.IH"(2) [OF s arr False] have "length r < length (skip_ws t)" by simp
        with skip_ws_length [of t] show ?thesis by (simp add: s)
      qed
    next
      case other
      with res s have "scan_constant s = Some (v, r)
                       \<or> (\<exists>lx. scan_number s = Some (lx, r))"
        by (subst (asm) parse_value.simps) (auto split: option.splits)
      then show ?thesis
        using scan_constant_shorter scan_number_shorter by blast
    qed
  qed
next
  case (2 acc s)
  show ?case
  proof
    assume res: "parse_array acc s = Inr (v1, r1)"
    then obtain x r where pv: "parse_value s = Inr (x, r)" and shorter: "length r < length s"
      by (subst (asm) parse_array.simps) (auto split: sum.splits if_splits)
    with res obtain c t where sk: "skip_ws r = c # t"
      by (subst (asm) parse_array.simps) (auto split: list.splits)
    from skip_ws_Cons_length [OF sk] shorter have t: "length t < length s" by simp
    show "length r1 < length s"
    proof (cases "c = CHR '']''")
      case True
      with res pv shorter sk have "r1 = t"
        by (subst (asm) parse_array.simps) simp
      with t show ?thesis by simp
    next
      case False
      with res pv shorter sk have comma: "c = CHR '',''"
        and rec: "parse_array (acc @ [x]) (skip_ws t) = Inr (v1, r1)"
        by (subst (asm) parse_array.simps, simp split: if_splits)+
      from "2.IH"(2) [OF pv refl shorter sk False comma] rec
      have "length r1 < length (skip_ws t)" by simp
      with skip_ws_length [of t] t show ?thesis by simp
    qed
  qed
next
  case (3 kvs s)
  show ?case
  proof
    assume res: "parse_object kvs s = Inr (v2, r2)"
    then obtain q t where s: "s = q # t" and q: "q = quote_char"
      by (subst (asm) parse_object.simps) (auto split: list.splits if_splits)
    with res obtain k r where key: "scanstring [] t = Inr (k, r)"
      by (subst (asm) parse_object.simps) (auto split: sum.splits)
    with res s q obtain c t1 where sk: "skip_ws r = c # t1"
      by (subst (asm) parse_object.simps) (auto split: list.splits)
    with res s q key have colon: "c = CHR '':'' \<and> length (skip_ws t1) < length s"
      by (subst (asm) parse_object.simps) (auto split: if_splits)
    with res s q key sk obtain x r3 where pv: "parse_value (skip_ws t1) = Inr (x, r3)"
      and shorter: "length r3 < length (skip_ws t1)"
      by (subst (asm) parse_object.simps) (auto split: sum.splits if_splits)
    with res s q key sk colon obtain c2 t2 where sk2: "skip_ws r3 = c2 # t2"
      by (subst (asm) parse_object.simps) (auto split: list.splits)
    from skip_ws_Cons_length [OF sk2] shorter colon have t2: "length t2 < length s" by simp
    show "length r2 < length s"
    proof (cases "c2 = CHR ''}''")
      case True
      with res s q key sk colon pv shorter sk2 have "r2 = t2"
        by (subst (asm) parse_object.simps) auto
      with t2 show ?thesis by simp
    next
      case False
      with res s q key sk colon pv shorter sk2 have comma: "c2 = CHR '',''"
        and rec: "parse_object (AList.update k x kvs) (skip_ws t2) = Inr (v2, r2)"
        by (subst (asm) parse_object.simps, auto split: if_splits)+
      have nq: "\<not> q \<noteq> quote_char" using q by simp
      from "3.IH"(2) [OF s nq key refl sk colon pv refl shorter sk2 False comma] rec
      have "length r2 < length (skip_ws t2)" by simp
      with skip_ws_length [of t2] t2 show ?thesis by simp
    qed
  qed
qed

section \<open>The answer extractor on JSON replies\<close>

text \<open>
  C9. The claim: for every input string, also one that is a JSON scalar such as a number
  or \<open>null\<close>, the answer extractor returns a pair and never raises. On the reply \<open>5\<close> the
  decoder returns a number, the test \<open>key in data\<close> raises \<open>TypeError\<close>, and only
  \<open>JSONDecodeError\<close> is caught: the exception leaves \<open>_parse_response\<close>. The same holds
  for \<open>null\<close>, for \<open>true\<close> and for a JSON string that contains an answer key.
\<close>

theorem parse_response_scalar_raises:
  \<open>parse_response ''5'' = Inl TypeError
   \<and> parse_response ''null'' = Inl TypeError
   \<and> parse_response ''true'' = Inl TypeError
   \<and> parse_response ''"my answer"'' = Inl TypeError\<close>
  by code_simp

text \<open>
  C1. The claim: a JSON object that holds the answer under any of the synonyms respuesta,
  answer, opcion, option, alternativa, in any letter case, yields that answer. The key
  \<open>opcion\<close> is none of the six spellings \<open>_parse_response\<close> looks up, no pattern knows the
  unaccented word, and the character scan returns the \<open>c\<close> of the key itself.
\<close>

theorem parse_response_opcion_key:
  \<open>parse_response ''{"opcion": "a"}'' = Inr (''c'', JString [])\<close>
  by code_simp

text \<open>
  C7. The claim: a JSON answer of more than one character whose first character is not a
  letter of the alphabet is searched again with the text patterns, and an answer outside
  the alphabet is the empty string. \<open>_parse_response\<close> returns such a value as it is,
  stripped and in lower case.
\<close>

theorem parse_response_long_answer_kept:
  \<open>parse_response ''{"respuesta": "xyz"}'' = Inr (''xyz'', JString [])
   \<and> parse_response ''{"Respuesta": "(a)"}'' = Inr (''(a)'', JString [])\<close>
  by code_simp

section \<open>Consensus levels\<close>

lemma lower_Nil_iff: "lower s = [] \<longleftrightarrow> s = []" "[] = lower s \<longleftrightarrow> s = []" "lower [] = []"
  by (auto simp: lower_def)

lemma level_names_distinct:
  "acuerdo_total \<noteq> acuerdo_parcial" "acuerdo_total \<noteq> sin_acuerdo"
  "acuerdo_parcial \<noteq> sin_acuerdo"
  by (simp_all add: acuerdo_total_def acuerdo_parcial_def sin_acuerdo_def)

lemma counter_triple:
  "counter [x, y, z] =
     (if x = y \<and> y = z then [(x, 3)]
      else if x = y then [(x, 2), (z, 1)]
      else if x = z then [(x, 2), (y, 1)]
      else if y = z then [(x, 1), (y, 2)]
      else [(x, 1), (y, 1), (z, 1)])"
  by (auto simp: counter_def)

lemma consensus_level_triple:
  assumes "advisors res = [(n1, r1), (n2, r2), (n3, r3)]"
  shows "consensus_level res =
     (let x = lower (parsed_answer r1); y = lower (parsed_answer r2); z = lower (parsed_answer r3)
      in if x = y \<and> y = z then Inr acuerdo_total
         else if x = y \<or> x = z \<or> y = z then Inr acuerdo_parcial
         else Inr sin_acuerdo)"
  using assms by (auto simp: consensus_level_def counter_triple Let_def)

lemma lower_letters:
  "lower ''a'' = ''a''" "lower ''b'' = ''b''" "lower ''c'' = ''c''" "lower ''C'' = ''c''"
  by code_simp+

text \<open>
  C4, as the code has it. For a result with three advisors, with \<open>x\<close>, \<open>y\<close>, \<open>z\<close> their
  parsed answers in lower case: the level is full agreement exactly when all three are
  equal, partial agreement exactly when two are equal and the third differs, and no
  agreement exactly when the three differ from each other. The thresholds 3 and 2 are
  constants of the code, not the number of advisors.
\<close>

theorem consensus_level_three:
  assumes "advisors res = [(n1, r1), (n2, r2), (n3, r3)]"
    and "x = lower (parsed_answer r1)" and "y = lower (parsed_answer r2)"
    and "z = lower (parsed_answer r3)"
  shows "(consensus_level res = Inr acuerdo_total \<longleftrightarrow> x = y \<and> y = z)
       \<and> (consensus_level res = Inr acuerdo_parcial \<longleftrightarrow>
            (x = y \<or> y = z \<or> x = z) \<and> \<not> (x = y \<and> y = z))
       \<and> (consensus_level res = Inr sin_acuerdo \<longleftrightarrow> x \<noteq> y \<and> y \<noteq> z \<and> x \<noteq> z)"
  using assms(2-4) level_names_distinct
  by (auto simp: consensus_level_triple [OF assms(1)] Let_def)

text \<open>The answers a, a, a; a, a, b; and a, b, c of three advisors.\<close>

theorem consensus_level_three_witness:
  "consensus_level (sample_result [(''claude'', ''a''), (''grok'', ''a''), (''deepseek'', ''a'')])
     = Inr acuerdo_total
   \<and> consensus_level (sample_result [(''claude'', ''a''), (''grok'', ''a''), (''deepseek'', ''b'')])
     = Inr acuerdo_parcial
   \<and> consensus_level (sample_result [(''claude'', ''a''), (''grok'', ''b''), (''deepseek'', ''c'')])
     = Inr sin_acuerdo"
proof -
  have adv: "advisors (sample_result [(n1, l1), (n2, l2), (n3, l3)])
             = [(n1, sample_reply l1), (n2, sample_reply l2), (n3, sample_reply l3)]"
    for n1 l1 n2 l2 n3 l3
    by (simp add: sample_result_def)
  have ans: "parsed_answer (sample_reply l) = l" for l
    by (simp add: sample_reply_def)
  have aaa: "consensus_level (sample_result [(''claude'', ''a''), (''grok'', ''a''), (''deepseek'', ''a'')])
               = Inr acuerdo_total"
    using consensus_level_three [OF adv [of "''claude''" "''a''" "''grok''" "''a''" "''deepseek''" "''a''"] refl refl refl]
    by (simp add: ans)
  have aab: "consensus_level (sample_result [(''claude'', ''a''), (''grok'', ''a''), (''deepseek'', ''b'')])
               = Inr acuerdo_parcial"
    using consensus_level_three [OF adv [of "''claude''" "''a''" "''grok''" "''a''" "''deepseek''" "''b''"] refl refl refl]
    by (simp add: ans lower_letters)
  have abc: "consensus_level (sample_result [(''claude'', ''a''), (''grok'', ''b''), (''deepseek'', ''c'')])
               = Inr sin_acuerdo"
    using consensus_level_three [OF adv [of "''claude''" "''a''" "''grok''" "''b''" "''deepseek''" "''c''"] refl refl refl]
    by (simp add: ans lower_letters)
  show ?thesis using aaa aab abc by simp
qed

text \<open>
  The claim for an advisor count other than three: four advisors that all answer a agree
  fully, and the code files the question under no agreement.
\<close>

theorem consensus_four_advisors_counterexample:
  "consensus_level
     (sample_result [(''claude'', ''a''), (''grok'', ''a''), (''deepseek'', ''a''), (''gpt'', ''a'')])
   = Inr sin_acuerdo"
  by (simp add: consensus_level_def sample_result_def sample_reply_def counter_def lower_letters)

text \<open>
  C10. Empty parsed answers count like any other value: when exactly two of three
  advisors have an empty parsed answer the level is partial agreement, and when all three
  have one it is full agreement.
\<close>

theorem consensus_empty_answers:
  assumes "advisors res = [(n1, r1), (n2, r2), (n3, r3)]"
  shows "(length (filter (\<lambda>r. parsed_answer r = []) [r1, r2, r3]) = 2
            \<longrightarrow> consensus_level res = Inr acuerdo_parcial)
       \<and> (length (filter (\<lambda>r. parsed_answer r = []) [r1, r2, r3]) = 3
            \<longrightarrow> consensus_level res = Inr acuerdo_total)"
  by (auto simp: consensus_level_triple [OF assms] Let_def lower_Nil_iff split: if_splits)

theorem consensus_empty_answers_witness:
  "consensus_level (sample_result [(''claude'', []), (''grok'', ''b''), (''deepseek'', [])])
     = Inr acuerdo_parcial
   \<and> consensus_level (sample_result [(''claude'', []), (''grok'', []), (''deepseek'', [])])
     = Inr acuerdo_total"
proof -
  have adv: "advisors (sample_result [(n1, l1), (n2, l2), (n3, l3)])
             = [(n1, sample_reply l1), (n2, sample_reply l2), (n3, sample_reply l3)]"
    for n1 l1 n2 l2 n3 l3
    by (simp add: sample_result_def)
  have ans: "parsed_answer (sample_reply l) = l" for l
    by (simp add: sample_reply_def)
  have two: "consensus_level (sample_result [(''claude'', []), (''grok'', ''b''), (''deepseek'', [])])
               = Inr acuerdo_parcial"
    using consensus_empty_answers [OF adv [of "''claude''" "[]" "''grok''" "''b''" "''deepseek''" "[]"]]
    by (simp add: ans)
  have three: "consensus_level (sample_result [(''claude'', []), (''grok'', []), (''deepseek'', [])])
                 = Inr acuerdo_total"
    using consensus_empty_answers [OF adv [of "''claude''" "[]" "''grok''" "[]" "''deepseek''" "[]"]]
    by (simp add: ans)
  show ?thesis using two three by simp
qed

section \<open>Selection of the questions\<close>

text \<open>
  C8, as the code has it. A positive \<open>sample_size\<close> cuts the sequence to its first
  \<open>sample_size\<close> questions, and only then \<open>resume_from\<close>, when given, keeps the questions
  whose identity is at least \<open>resume_from\<close>; without a \<open>sample_size\<close> only the filter applies.
\<close>

theorem select_rows_policy:
  "(0 < k \<longrightarrow>
      select_rows (Some k) resume_from df =
        (case resume_from of
           Some from_id \<Rightarrow> filter (\<lambda>r. from_id \<le> name r) (take (nat k) df)
         | None \<Rightarrow> take (nat k) df))
   \<and> select_rows None resume_from df =
        (case resume_from of
           Some from_id \<Rightarrow> filter (\<lambda>r. from_id \<le> name r) df
         | None \<Rightarrow> df)"
  by (auto simp: select_rows_def iloc_until_def Let_def split: option.splits)

text \<open>
  The identities 1 to 5 resumed from 3; ten questions with a sample of 3; and a sample of
  4 of the identities 1 to 5 resumed from 3, which is cut before it is filtered.
\<close>

theorem select_rows_policy_witness:
  "select_rows None (Some 3) (map (\<lambda>i. question_row i ''a'') [1, 2, 3, 4, 5])
     = map (\<lambda>i. question_row i ''a'') [3, 4, 5]
   \<and> select_rows (Some 3) None (map (\<lambda>i. question_row i ''a'') [0, 1, 2, 3, 4, 5, 6, 7, 8, 9])
     = map (\<lambda>i. question_row i ''a'') [0, 1, 2]
   \<and> select_rows (Some 4) (Some 3) (map (\<lambda>i. question_row i ''a'') [1, 2, 3, 4, 5])
     = map (\<lambda>i. question_row i ''a'') [3, 4]"
  using select_rows_policy [of 1 "Some 3" "map (\<lambda>i. question_row i ''a'') [1, 2, 3, 4, 5]"]
    select_rows_policy [of 3 None "map (\<lambda>i. question_row i ''a'') [0, 1, 2, 3, 4, 5, 6, 7, 8, 9]"]
    select_rows_policy [of 4 "Some 3" "map (\<lambda>i. question_row i ''a'') [1, 2, 3, 4, 5]"]
  by (simp add: question_row_def)

text \<open>
  The claim at \<open>sample_size = 0\<close>: the first 0 questions are none, and the code, whose test
  \<open>if sample_size and ...\<close> takes 0 for no sample size, selects every question.
\<close>

theorem select_rows_zero_counterexample:
  "select_rows (Some 0) None [question_row 1 ''a'', question_row 2 ''a'']
     = [question_row 1 ''a'', question_row 2 ''a'']
   \<and> take (nat 0) [question_row 1 ''a'', question_row 2 ''a''] = []"
  by (simp add: select_rows_def)

text \<open>
  The run processes the selected rows in their order: the results it logs are those of the
  selected rows whose image is valid.
\<close>

lemma process_question_skips:
  "process_question self is_valid_image completed elapsed r = Inr None
     \<longleftrightarrow> \<not> is_valid_image (path_join (image_base_path self) (ruta r))"
  by (auto simp: process_question_def Let_def split: sum.splits)

lemma process_question_id:
  assumes "process_question self is_valid_image completed elapsed r = Inr (Some res)"
  shows "question_id res = name r \<and> is_valid_image (path_join (image_base_path self) (ruta r))"
  using assms by (auto simp: process_question_def Let_def split: sum.splits if_splits)

lemma results_log_result: "results (log_result res lg) = results lg @ [res]"
  by (simp add: log_result_def)

lemma process_rows_logged:
  assumes "process_rows self is_valid_image completed elapsed rows lg = Inr lg'"
  shows "map question_id (results lg') =
           map question_id (results lg)
           @ map name (filter (\<lambda>r. is_valid_image (path_join (image_base_path self) (ruta r))) rows)"
  using assms
proof (induction rows arbitrary: lg)
  case Nil
  then show ?case by simp
next
  case (Cons r rows)
  show ?case
  proof (cases "process_question self is_valid_image (completed r) (elapsed r) r")
    case (Inl e)
    with Cons.prems show ?thesis by simp
  next
    case (Inr outcome)
    show ?thesis
    proof (cases outcome)
      case None
      with Inr have "\<not> is_valid_image (path_join (image_base_path self) (ruta r))"
        using process_question_skips by blast
      moreover from Cons.prems Inr None
      have "process_rows self is_valid_image completed elapsed rows lg = Inr lg'" by simp
      ultimately show ?thesis using Cons.IH by simp
    next
      case (Some res)
      from process_question_id [of self is_valid_image "completed r" "elapsed r" r res] Inr Some
      have id: "question_id res = name r"
        and valid: "is_valid_image (path_join (image_base_path self) (ruta r))" by simp_all
      from Cons.prems Inr Some
      have "process_rows self is_valid_image completed elapsed rows (log_result res lg) = Inr lg'"
        by simp
      from Cons.IH [OF this] show ?thesis
        by (simp add: results_log_result id valid)
    qed
  qed
qed

lemma run_logs_selected_rows:
  assumes "run self is_valid_image completed elapsed df sample_size resume_from = Inr lg"
  shows "map question_id (results lg) =
           map name (filter (\<lambda>r. is_valid_image (path_join (image_base_path self) (ruta r)))
                            (select_rows sample_size resume_from df))"
  using process_rows_logged [OF assms [unfolded run_def]] by simp

section \<open>The fan-out\<close>








section \<open>Correctness of the decision\<close>







section \<open>Precedence in the answer extractor\<close>









section \<open>The prompt of the decision model\<close>


lemma startswith_Nil [simp]: "startswith [] s"
  by (simp add: startswith_def)










end
